theory Spec2Isabelle
  imports Complex_Main
begin

section \<open>ECOD: outlier detection from empirical cumulative distribution functions\<close>

text \<open>
  A shallow embedding of \<^verbatim>\<open>pytod/models/ecod.py\<close> (class \<^verbatim>\<open>ECOD\<close>, methods
  \<^verbatim>\<open>__init__\<close>, \<^verbatim>\<open>fit\<close> and \<^verbatim>\<open>decision_function\<close>).

  Floating-point tensors are modelled by lists of reals: a two-dimensional array is the
  list of its rows, all of the same length. Rounding, NaN and infinities are outside
  the model. The timing code of \<^verbatim>\<open>fit\<close> (\<^verbatim>\<open>return_time\<close>, CUDA events,
  \<^verbatim>\<open>gpu_time\<close>) only measures the run and is left out; the ignored argument \<^verbatim>\<open>y\<close>
  and the class-count bookkeeping \<^verbatim>\<open>_set_n_classes(y)\<close> are left out as well.
\<close>

subsection \<open>Matrices\<close>

type_synonym matrix = "real list list"

text \<open>\<^verbatim>\<open>X.shape[0]\<close> and \<^verbatim>\<open>X.shape[1]\<close>.\<close>

definition nrows :: "matrix \<Rightarrow> nat" where
  "nrows X = length X"

definition ncols :: "matrix \<Rightarrow> nat" where
  "ncols X = (case X of [] \<Rightarrow> 0 | r # _ \<Rightarrow> length r)"

text \<open>A numpy array is rectangular: every row has as many entries as the first one.\<close>

definition is_matrix :: "matrix \<Rightarrow> bool" where
  "is_matrix X = list_all (\<lambda>r. length r = ncols X) X"

text \<open>\<^verbatim>\<open>X[:, f]\<close>.\<close>

definition column :: "matrix \<Rightarrow> nat \<Rightarrow> real list" where
  "column X f = map (\<lambda>r. r ! f) X"

text \<open>\<^verbatim>\<open>-X\<close>.\<close>

definition neg :: "matrix \<Rightarrow> matrix" where
  "neg X = map (map uminus) X"

text \<open>\<^verbatim>\<open>np.concatenate((A, B), axis=0)\<close>.\<close>

definition concatenate :: "matrix \<Rightarrow> matrix \<Rightarrow> matrix" where
  "concatenate A B = A @ B"

subsection \<open>The empirical distribution function\<close>

text \<open>
  Modelled from the spec: \<^verbatim>\<open>EmpiricalCDF\<close>, the contract of the helper behind
  \<^verbatim>\<open>basic_operators.ecdf_multiple\<close>, whose module is not among the sources. For a
  reference array \<open>R\<close> and a query array \<open>Q\<close> the result \<open>P\<close> has
  \<open>P[i] = |{r in R : r <= Q[i]}| / n_ref\<close>.
\<close>

definition EmpiricalCDF :: "real list \<Rightarrow> real list \<Rightarrow> real list" where
  "EmpiricalCDF R Q = map (\<lambda>q. real (length (filter (\<lambda>r. r \<le> q) R)) / real (length R)) Q"

text \<open>
  Modelled from the spec: \<^verbatim>\<open>ecdf_multiple\<close> of \<^verbatim>\<open>basic_operators\<close>, which is not
  among the sources. It receives one matrix only, so every column is its own reference:
  the empirical distribution function of each column, evaluated on that column, computed
  per feature and returned in the shape of the input.
\<close>

definition ecdf_multiple :: "matrix \<Rightarrow> matrix" where
  "ecdf_multiple X =
     (let P = map (\<lambda>f. EmpiricalCDF (column X f) (column X f)) [0..<ncols X]
      in map (\<lambda>i. map (\<lambda>f. P ! f ! i) [0..<ncols X]) [0..<nrows X])"

subsection \<open>Threshold calibration\<close>

text \<open>
  \<open>InvalidInputError\<close> is the error class the specification names; \<open>IndexError\<close> is
  raised by an index outside a sequence.
\<close>

datatype error = InvalidInputError | IndexError

text \<open>
  Modelled from the spec: the collaborator \<^verbatim>\<open>calibrate(scores, contamination) ->
  (threshold, labels)\<close>, which stands for \<^verbatim>\<open>BaseDetector._process_decision_scores\<close>
  (module \<^verbatim>\<open>base\<close>, not among the sources). Label 1 marks the
  \<open>round(n * contamination)\<close> samples with the highest scores: the threshold is the
  highest score that is not among them, and the labels come from applying the threshold
  to the scores.
\<close>

definition calibrate :: "real list \<Rightarrow> real \<Rightarrow> error + (real \<times> nat list)" where
  "calibrate scores c =
     (let n = length scores;
          k = nat (round (real n * c));
          desc = rev (sort scores)
      in if k < n
         then (let threshold = desc ! k
               in Inr (threshold, map (\<lambda>s. if threshold < s then 1 else 0) scores))
         else Inl IndexError)"

subsection \<open>The detector\<close>

text \<open>
  The attributes of an \<^verbatim>\<open>ECOD\<close> object. An attribute that \<^verbatim>\<open>__init__\<close> does not set
  is \<open>None\<close> until some method assigns it; \<^verbatim>\<open>hasattr(self, 'X_train')\<close> is
  \<open>X_train self \<noteq> None\<close>. The attributes \<^verbatim>\<open>decision_scores_\<close>, \<^verbatim>\<open>threshold_\<close> and
  \<^verbatim>\<open>labels_\<close> lose their final underscore, and \<^verbatim>\<open>O\<close> is \<open>O_mat\<close>.
\<close>

record ecod =
  contamination :: real
  n_neighbors :: int
  device :: string
  X_train :: "matrix option"
  U_l :: "matrix option"
  U_r :: "matrix option"
  O_mat :: "matrix option"
  decision_scores :: "real list option"
  threshold :: "real option"
  labels :: "nat list option"

text \<open>\<^verbatim>\<open>ECOD(contamination, n_neighbors, batch_size, device)\<close>; \<^verbatim>\<open>batch_size\<close> is not stored.\<close>

definition ECOD :: "real \<Rightarrow> int \<Rightarrow> string \<Rightarrow> ecod" where
  "ECOD c k dev =
     \<lparr>contamination = c, n_neighbors = k, device = dev, X_train = None,
      U_l = None, U_r = None, O_mat = None, decision_scores = None,
      threshold = None, labels = None\<rparr>"

text \<open>The elementwise steps of \<^verbatim>\<open>fit\<close>, in the order of the source.\<close>

definition neg_log :: "matrix \<Rightarrow> matrix" where
  "neg_log U = map (map (\<lambda>u. -1 * ln u)) U"

definition maximum :: "matrix \<Rightarrow> matrix \<Rightarrow> matrix" where
  "maximum A B = map2 (map2 max) A B"

text \<open>\<^verbatim>\<open>torch.sum(O, dim=1)\<close>: the raw aggregate of every row.\<close>

definition raw_aggregate :: "matrix \<Rightarrow> real list" where
  "raw_aggregate M = map sum_list M"

text \<open>
  \<^verbatim>\<open>self._process_decision_scores()\<close>: stores the threshold and the labels computed
  from the training scores and the contamination.
\<close>

definition process_decision_scores :: "ecod \<Rightarrow> real list \<Rightarrow> error + ecod" where
  "process_decision_scores self scores =
     (case calibrate scores (contamination self) of
        Inl e \<Rightarrow> Inl e
      | Inr (t, ls) \<Rightarrow> Inr (self\<lparr>threshold := Some t, labels := Some ls\<rparr>))"

definition fit :: "ecod \<Rightarrow> matrix \<Rightarrow> error + ecod" where
  "fit self X =
     (let U_l0 = ecdf_multiple X;
          U_r0 = ecdf_multiple (neg X);
          U_l1 = neg_log U_l0;
          U_r1 = neg_log U_r0;
          O1 = maximum U_l1 U_r1;
          scores = map (\<lambda>s. s * -1) (raw_aggregate O1)
      in process_decision_scores
           (self\<lparr>U_l := Some U_l1, U_r := Some U_r1, O_mat := Some O1,
                 decision_scores := Some scores\<rparr>) scores)"

text \<open>
  \<^verbatim>\<open>decision_function\<close>: when the object has an attribute \<^verbatim>\<open>X_train\<close> the local
  variable \<^verbatim>\<open>X\<close> is rebound to the stored rows followed by the query rows. The body
  ends there, its \<^verbatim>\<open>return\<close> being a comment, so the call returns Python's \<^verbatim>\<open>None\<close>.
  The result is paired with the object after the call.
\<close>

definition decision_function :: "ecod \<Rightarrow> matrix \<Rightarrow> real list option \<times> ecod" where
  "decision_function self X =
     (let X1 = (case X_train self of
                  Some T \<Rightarrow> concatenate T X
                | None \<Rightarrow> X)
      in (None, self))"

section \<open>Shapes and ranges\<close>

text \<open>
  The lemmas of this section use no property of the rows beyond their number, so they
  hold for every list of rows, in particular for every rectangular array.
\<close>

lemma ncols_neg: "ncols (neg X) = ncols X"
  by (cases X) (simp_all add: ncols_def neg_def)

lemma nrows_neg: "nrows (neg X) = nrows X"
  by (simp add: nrows_def neg_def)

lemma nrows_ecdf_multiple: "nrows (ecdf_multiple X) = nrows X"
  by (simp add: ecdf_multiple_def nrows_def Let_def)

lemma length_row_ecdf_multiple:
  "i < nrows X \<Longrightarrow> length (ecdf_multiple X ! i) = ncols X"
  by (simp add: ecdf_multiple_def nrows_def Let_def)

lemma length_column: "length (column X f) = nrows X"
  by (simp add: column_def nrows_def)

lemma length_EmpiricalCDF: "length (EmpiricalCDF R Q) = length Q"
  by (simp add: EmpiricalCDF_def)

lemma ecdf_multiple_nth:
  "i < nrows X \<Longrightarrow> f < ncols X \<Longrightarrow>
   ecdf_multiple X ! i ! f = EmpiricalCDF (column X f) (column X f) ! i"
  by (simp add: ecdf_multiple_def nrows_def Let_def)

lemma EmpiricalCDF_self_pos:
  assumes "i < length R"
  shows "0 < EmpiricalCDF R R ! i"
proof -
  have "R ! i \<in> set (filter (\<lambda>r. r \<le> R ! i) R)"
    using assms by simp
  then have "filter (\<lambda>r. r \<le> R ! i) R \<noteq> []"
    by (metis empty_iff empty_set)
  then have "0 < length (filter (\<lambda>r. r \<le> R ! i) R)"
    by simp
  moreover have "0 < length R"
    using assms by auto
  ultimately show ?thesis
    using assms by (simp add: EmpiricalCDF_def)
qed

lemma EmpiricalCDF_le_one:
  assumes "i < length Q"
  shows "EmpiricalCDF R Q ! i \<le> 1"
proof (cases "R = []")
  case True
  then show ?thesis using assms by (simp add: EmpiricalCDF_def)
next
  case False
  have "length (filter (\<lambda>r. r \<le> Q ! i) R) \<le> length R"
    by (rule length_filter_le)
  then have "real (length (filter (\<lambda>r. r \<le> Q ! i) R)) \<le> real (length R)"
    by simp
  moreover have "0 < real (length R)"
    using False by simp
  ultimately show ?thesis
    using assms by (simp add: EmpiricalCDF_def)
qed

lemma ecdf_multiple_range:
  assumes "i < nrows X" and "f < ncols X"
  shows "0 < ecdf_multiple X ! i ! f \<and> ecdf_multiple X ! i ! f \<le> 1"
  using assms
  by (simp add: ecdf_multiple_nth EmpiricalCDF_self_pos EmpiricalCDF_le_one length_column)

lemma calibrate_index:
  assumes "0 < n" and "c < 1 / 2"
  shows "nat (round (real n * c)) < n"
proof -
  have "real n * c < real n * (1 / 2)"
    using assms by (intro mult_strict_left_mono) simp_all
  moreover have "1 \<le> real n"
    using assms by simp
  ultimately have "real n * c + 1 / 2 < real n"
    by linarith
  then have "round (real n * c) < int n"
    unfolding round_def by (simp add: floor_less_iff)
  then show ?thesis
    using assms by linarith
qed

lemma calibrate_succeeds:
  assumes "scores \<noteq> []" and "c < 1 / 2"
  shows "calibrate scores c =
           Inr (rev (sort scores) ! nat (round (real (length scores) * c)),
                map (\<lambda>s. if rev (sort scores) ! nat (round (real (length scores) * c)) < s
                          then 1 else 0) scores)"
  using assms calibrate_index [of "length scores" c]
  by (simp add: calibrate_def Let_def)

lemma calibrate_not_invalid: "calibrate scores c \<noteq> Inl InvalidInputError"
  by (simp add: calibrate_def Let_def)

lemma nrows_neg_log: "nrows (neg_log U) = nrows U"
  by (simp add: neg_log_def nrows_def)

lemma nrows_maximum: "nrows (maximum A B) = min (nrows A) (nrows B)"
  by (simp add: maximum_def nrows_def)

lemma length_raw_aggregate: "length (raw_aggregate M) = nrows M"
  by (simp add: raw_aggregate_def nrows_def)

section \<open>What fit stores\<close>

lemma length_scores:
  "length (map (\<lambda>s. s * -1)
     (raw_aggregate (maximum (neg_log (ecdf_multiple X)) (neg_log (ecdf_multiple (neg X))))))
   = nrows X"
  by (simp add: length_raw_aggregate nrows_maximum nrows_neg_log nrows_ecdf_multiple nrows_neg)

lemma fit_succeeds:
  assumes "X \<noteq> []" and "contamination self < 1 / 2"
  shows "\<exists>t ls. fit self X =
           Inr (self\<lparr>U_l := Some (neg_log (ecdf_multiple X)),
                     U_r := Some (neg_log (ecdf_multiple (neg X))),
                     O_mat := Some (maximum (neg_log (ecdf_multiple X))
                                            (neg_log (ecdf_multiple (neg X)))),
                     decision_scores := Some (map (\<lambda>s. s * -1) (raw_aggregate
                        (maximum (neg_log (ecdf_multiple X))
                                 (neg_log (ecdf_multiple (neg X)))))),
                     threshold := Some t, labels := Some ls\<rparr>)"
proof -
  let ?scores = "map (\<lambda>s. s * -1) (raw_aggregate
                   (maximum (neg_log (ecdf_multiple X)) (neg_log (ecdf_multiple (neg X)))))"
  have "length ?scores = nrows X"
    by (rule length_scores)
  then have "?scores \<noteq> []"
    using assms(1) by (auto simp: nrows_def)
  then obtain t ls where "calibrate ?scores (contamination self) = Inr (t, ls)"
    using calibrate_succeeds [OF _ assms(2)] by blast
  then show ?thesis
    by (intro exI [of _ t] exI [of _ ls])
       (simp add: fit_def Let_def process_decision_scores_def)
qed

lemma fit_fields:
  assumes "fit self X = Inr m"
  shows "U_l m = Some (neg_log (ecdf_multiple X))"
    and "U_r m = Some (neg_log (ecdf_multiple (neg X)))"
    and "O_mat m = Some (maximum (neg_log (ecdf_multiple X)) (neg_log (ecdf_multiple (neg X))))"
    and "decision_scores m = Some (map (\<lambda>s. s * -1) (raw_aggregate
           (maximum (neg_log (ecdf_multiple X)) (neg_log (ecdf_multiple (neg X))))))"
    and "X_train m = X_train self"
    and "contamination m = contamination self"
    and "n_neighbors m = n_neighbors self"
    and "device m = device self"
    and "threshold m \<noteq> None"
    and "labels m \<noteq> None"
  using assms
  by (auto simp: fit_def Let_def process_decision_scores_def split: sum.splits prod.splits)

lemma fit_not_invalid: "fit self X \<noteq> Inl InvalidInputError"
  using calibrate_not_invalid
  by (auto simp: fit_def Let_def process_decision_scores_def split: sum.splits prod.splits)

lemma maximum_nth:
  assumes "i < nrows A" and "i < nrows B" and "f < length (A ! i)" and "f < length (B ! i)"
  shows "maximum A B ! i ! f = max (A ! i ! f) (B ! i ! f)"
  using assms by (simp add: maximum_def nrows_def)

lemma neg_log_nth:
  assumes "i < nrows U" and "f < length (U ! i)"
  shows "neg_log U ! i ! f = - ln (U ! i ! f)"
  using assms by (simp add: neg_log_def nrows_def)

lemma length_row_neg_log:
  "i < nrows U \<Longrightarrow> length (neg_log U ! i) = length (U ! i)"
  by (simp add: neg_log_def nrows_def)

lemma length_row_maximum:
  "i < nrows A \<Longrightarrow> i < nrows B \<Longrightarrow>
   length (maximum A B ! i) = min (length (A ! i)) (length (B ! i))"
  by (simp add: maximum_def nrows_def)

lemma extremity_nth:
  assumes "i < nrows X" and "f < ncols X"
  shows "maximum (neg_log (ecdf_multiple X)) (neg_log (ecdf_multiple (neg X))) ! i ! f =
         max (- ln (EmpiricalCDF (column X f) (column X f) ! i))
             (- ln (EmpiricalCDF (column (neg X) f) (column (neg X) f) ! i))"
  using assms
  by (simp add: maximum_nth neg_log_nth nrows_neg_log nrows_ecdf_multiple nrows_neg
      length_row_neg_log length_row_ecdf_multiple ncols_neg ecdf_multiple_nth)

lemma length_row_extremity:
  assumes "i < nrows X"
  shows "length (maximum (neg_log (ecdf_multiple X)) (neg_log (ecdf_multiple (neg X))) ! i)
         = ncols X"
  using assms
  by (simp add: length_row_maximum nrows_neg_log nrows_ecdf_multiple nrows_neg
      length_row_neg_log length_row_ecdf_multiple ncols_neg)

lemma raw_aggregate_nth:
  assumes "i < nrows M"
  shows "raw_aggregate M ! i = (\<Sum>f<length (M ! i). M ! i ! f)"
  using assms by (simp add: raw_aggregate_def nrows_def sum_list_sum_nth atLeast0LessThan)

lemma extremity_nonneg:
  assumes "i < nrows X" and "f < ncols X"
  shows "0 \<le> maximum (neg_log (ecdf_multiple X)) (neg_log (ecdf_multiple (neg X))) ! i ! f"
proof -
  have "0 < ecdf_multiple X ! i ! f" and "ecdf_multiple X ! i ! f \<le> 1"
    using ecdf_multiple_range [OF assms] by simp_all
  then have "0 \<le> - ln (ecdf_multiple X ! i ! f)"
    by simp
  then have "0 \<le> max (- ln (ecdf_multiple X ! i ! f)) (- ln (ecdf_multiple (neg X) ! i ! f))"
    by (simp add: le_max_iff_disj)
  then show ?thesis
    using assms by (simp add: extremity_nth ecdf_multiple_nth nrows_neg ncols_neg)
qed

lemma raw_aggregate_extremity_nth:
  assumes "i < nrows X"
  shows "raw_aggregate (maximum (neg_log (ecdf_multiple X)) (neg_log (ecdf_multiple (neg X)))) ! i
         = (\<Sum>f<ncols X. maximum (neg_log (ecdf_multiple X))
                                   (neg_log (ecdf_multiple (neg X))) ! i ! f)"
proof -
  let ?E = "maximum (neg_log (ecdf_multiple X)) (neg_log (ecdf_multiple (neg X)))"
  have "i < nrows ?E"
    using assms by (simp add: nrows_maximum nrows_neg_log nrows_ecdf_multiple nrows_neg)
  then have "raw_aggregate ?E ! i = (\<Sum>f<length (?E ! i). ?E ! i ! f)"
    by (rule raw_aggregate_nth)
  then show ?thesis
    using assms by (simp add: length_row_extremity)
qed

lemma raw_aggregate_extremity_nonneg:
  assumes "i < nrows X"
  shows "0 \<le> raw_aggregate (maximum (neg_log (ecdf_multiple X))
                                       (neg_log (ecdf_multiple (neg X)))) ! i"
proof -
  have "0 \<le> (\<Sum>f<ncols X. maximum (neg_log (ecdf_multiple X))
                                      (neg_log (ecdf_multiple (neg X))) ! i ! f)"
    using assms by (intro sum_nonneg) (simp add: extremity_nonneg)
  then show ?thesis
    using assms by (simp only: raw_aggregate_extremity_nth)
qed

lemma nrows_extremity:
  "nrows (maximum (neg_log (ecdf_multiple X)) (neg_log (ecdf_multiple (neg X)))) = nrows X"
  by (simp add: nrows_maximum nrows_neg_log nrows_ecdf_multiple nrows_neg)

lemma column_neg:
  assumes "is_matrix X" and "f < ncols X"
  shows "column (neg X) f = map uminus (column X f)"
proof -
  have "\<forall>r\<in>set X. f < length r"
    using assms by (simp add: is_matrix_def list_all_iff)
  then show ?thesis
    by (simp add: column_def neg_def)
qed

lemma extremity_nth_columns:
  assumes "is_matrix X" and "i < nrows X" and "f < ncols X"
  shows "maximum (neg_log (ecdf_multiple X)) (neg_log (ecdf_multiple (neg X))) ! i ! f =
         max (- ln (EmpiricalCDF (column X f) (column X f) ! i))
             (- ln (EmpiricalCDF (map uminus (column X f)) (map uminus (column X f)) ! i))"
  using assms by (simp add: extremity_nth column_neg)

section \<open>The query path\<close>

lemma decision_function_None: "fst (decision_function self Y) = None"
  by (simp add: decision_function_def Let_def)

lemma decision_function_frame: "snd (decision_function self Y) = self"
  by (simp add: decision_function_def Let_def)

section \<open>Runs on small training sets\<close>

text \<open>
  Training sets used below: three rows \<open>0, 1, 2\<close> of one feature; the two-row sets
  \<open>0, 1\<close> and \<open>0, 5\<close>; a single row; two rows without a column; and the ten rows
  \<open>0, \<dots>, 9\<close> of the specification's scenario.
\<close>

lemma ecdf_three_rows:
  "ecdf_multiple [[0],[1],[2]] = [[1/3],[2/3],[1]]"
  "ecdf_multiple (neg [[0],[1],[2]]) = [[1],[2/3],[1/3]]"
  by (simp_all add: ecdf_multiple_def EmpiricalCDF_def column_def ncols_def nrows_def Let_def
      neg_def upt_rec)

lemma calibrate_three_rows:
  "calibrate [ln (1/3), ln (2/3), ln (1/3)] (1/10) = Inr (ln (2/3), [0, 0, 0])"
  by (simp add: calibrate_def Let_def round_def)

lemma fit_three_rows:
  "fit (ECOD (1/10) k dev) [[0],[1],[2]] =
     Inr ((ECOD (1/10) k dev)
       \<lparr>U_l := Some [[- ln (1/3)],[- ln (2/3)],[- ln 1]],
        U_r := Some [[- ln 1],[- ln (2/3)],[- ln (1/3)]],
        O_mat := Some [[- ln (1/3)],[- ln (2/3)],[- ln (1/3)]],
        decision_scores := Some [ln (1/3), ln (2/3), ln (1/3)],
        threshold := Some (ln (2/3)),
        labels := Some [0, 0, 0]\<rparr>)"
  by (simp add: fit_def Let_def ecdf_three_rows neg_log_def maximum_def raw_aggregate_def
      process_decision_scores_def calibrate_three_rows ECOD_def)

lemma ecdf_two_rows:
  "ecdf_multiple [[0],[1]] = [[1/2],[1]]"
  "ecdf_multiple (neg [[0],[1]]) = [[1],[1/2]]"
  "ecdf_multiple [[0],[5]] = [[1/2],[1]]"
  "ecdf_multiple (neg [[0],[5]]) = [[1],[1/2]]"
  by (simp_all add: ecdf_multiple_def EmpiricalCDF_def column_def ncols_def nrows_def Let_def
      neg_def upt_rec)

lemma calibrate_two_rows:
  "calibrate [ln (1/2), ln (1/2)] (1/10) = Inr (ln (1/2), [0, 0])"
  by (simp add: calibrate_def Let_def round_def)

lemma fit_two_rows:
  "fit (ECOD (1/10) 5 ''cuda:0'') [[0],[1]] =
     Inr ((ECOD (1/10) 5 ''cuda:0'')
       \<lparr>U_l := Some [[- ln (1/2)],[- ln 1]],
        U_r := Some [[- ln 1],[- ln (1/2)]],
        O_mat := Some [[- ln (1/2)],[- ln (1/2)]],
        decision_scores := Some [ln (1/2), ln (1/2)],
        threshold := Some (ln (1/2)),
        labels := Some [0, 0]\<rparr>)"
  "fit (ECOD (1/10) 5 ''cuda:0'') [[0],[5]] =
     Inr ((ECOD (1/10) 5 ''cuda:0'')
       \<lparr>U_l := Some [[- ln (1/2)],[- ln 1]],
        U_r := Some [[- ln 1],[- ln (1/2)]],
        O_mat := Some [[- ln (1/2)],[- ln (1/2)]],
        decision_scores := Some [ln (1/2), ln (1/2)],
        threshold := Some (ln (1/2)),
        labels := Some [0, 0]\<rparr>)"
  by (simp_all add: fit_def Let_def ecdf_two_rows neg_log_def maximum_def raw_aggregate_def
      process_decision_scores_def calibrate_two_rows ECOD_def)

lemma fit_single_row:
  "fit (ECOD (1/10) 5 ''cuda:0'') [[1]] =
     Inr ((ECOD (1/10) 5 ''cuda:0'')
       \<lparr>U_l := Some [[- ln 1]], U_r := Some [[- ln 1]], O_mat := Some [[0]],
        decision_scores := Some [0], threshold := Some 0, labels := Some [0]\<rparr>)"
  by (simp add: fit_def Let_def ecdf_multiple_def EmpiricalCDF_def column_def ncols_def
      nrows_def neg_def neg_log_def maximum_def raw_aggregate_def
      process_decision_scores_def calibrate_def round_def ECOD_def)

lemma fit_no_column:
  "fit (ECOD (1/10) 5 ''cuda:0'') [[],[]] =
     Inr ((ECOD (1/10) 5 ''cuda:0'')
       \<lparr>U_l := Some [[],[]], U_r := Some [[],[]], O_mat := Some [[],[]],
        decision_scores := Some [0, 0], threshold := Some 0, labels := Some [0, 0]\<rparr>)"
  by (simp add: fit_def Let_def ecdf_multiple_def EmpiricalCDF_def column_def ncols_def
      nrows_def neg_def neg_log_def maximum_def raw_aggregate_def
      process_decision_scores_def calibrate_def round_def ECOD_def upt_rec)

lemma ecdf_scenario:
  "ecdf_multiple [[0],[1],[2],[3],[4],[5],[6],[7],[8],[9]] =
     [[1/10],[2/10],[3/10],[4/10],[5/10],[6/10],[7/10],[8/10],[9/10],[1]]"
  by (simp add: ecdf_multiple_def EmpiricalCDF_def column_def ncols_def nrows_def Let_def upt_rec)

lemma ecdf_neg_scenario:
  "ecdf_multiple (neg [[0],[1],[2],[3],[4],[5],[6],[7],[8],[9]]) =
     [[1],[9/10],[8/10],[7/10],[6/10],[5/10],[4/10],[3/10],[2/10],[1/10]]"
  by (simp add: ecdf_multiple_def EmpiricalCDF_def column_def ncols_def nrows_def Let_def
      neg_def upt_rec)

lemma extremity_scenario:
  "maximum (neg_log (ecdf_multiple [[0],[1],[2],[3],[4],[5],[6],[7],[8],[9]]))
           (neg_log (ecdf_multiple (neg [[0],[1],[2],[3],[4],[5],[6],[7],[8],[9]]))) =
     [[- ln (1/10)],[- ln (2/10)],[- ln (3/10)],[- ln (4/10)],[- ln (5/10)],
      [- ln (5/10)],[- ln (4/10)],[- ln (3/10)],[- ln (2/10)],[- ln (1/10)]]"
  by (simp add: ecdf_scenario ecdf_neg_scenario neg_log_def maximum_def)

lemma sort_scenario:
  "sort [ln (1/10), ln (2/10), ln (3/10), ln (4/10), ln (5/10),
         ln (5/10), ln (4/10), ln (3/10), ln (2/10), ln (1/10::real)] =
     [ln (1/10), ln (1/10), ln (2/10), ln (2/10), ln (3/10), ln (3/10), ln (4/10), ln (4/10),
      ln (5/10), ln (5/10)]"
  by simp

lemma calibrate_scenario:
  "calibrate [ln (1/10), ln (2/10), ln (3/10), ln (4/10), ln (5/10),
              ln (5/10), ln (4/10), ln (3/10), ln (2/10), ln (1/10::real)] (2/10) =
     Inr (ln (4/10), [0, 0, 0, 0, 1, 1, 0, 0, 0, 0])"
  by (simp add: calibrate_def Let_def sort_scenario)

section \<open>The claims\<close>

text \<open>
  C1, sign convention: an observation that is more extreme under the per-feature tail
  analysis should receive a strictly higher training score. The source multiplies the
  row sums of the extremity matrix by \<open>-1\<close>, so the order is reversed. On the training
  rows \<open>0, 1, 2\<close> the first row (tail probability \<open>1/3\<close>) has a larger raw aggregate than
  the middle row (tail probability \<open>2/3\<close>) and a strictly lower stored score.
\<close>

theorem scores_reverse_extremity:
  "(case fit (ECOD (1/10) 5 ''cuda:0'') [[0],[1],[2]] of
      Inl e \<Rightarrow> False
    | Inr m \<Rightarrow>
        (case (O_mat m, decision_scores m) of
           (Some E, Some sc) \<Rightarrow>
              raw_aggregate E ! 1 < raw_aggregate E ! 0 \<and> sc ! 0 < sc ! 1
         | _ \<Rightarrow> False))"
  by (simp only: fit_three_rows) (simp add: raw_aggregate_def ECOD_def)

text \<open>
  C2, the scenario: ten rows \<open>0, \<dots>, 9\<close> of one feature, contamination \<open>0.2\<close>. The rows
  \<open>0\<close> and \<open>9\<close> have the two highest raw aggregates (\<open>- ln (1/10)\<close> in the extremity
  matrix), but their stored scores \<open>ln (1/10)\<close> are the two lowest, and the rows labelled
  anomalous are the two central rows \<open>4\<close> and \<open>5\<close>, not the rows \<open>0\<close> and \<open>9\<close>.
\<close>

theorem scenario_fit:
  "fit (ECOD (2/10) 5 ''cuda:0'') [[0],[1],[2],[3],[4],[5],[6],[7],[8],[9]] =
     Inr ((ECOD (2/10) 5 ''cuda:0'')
       \<lparr>U_l := Some [[- ln (1/10)],[- ln (2/10)],[- ln (3/10)],[- ln (4/10)],[- ln (5/10)],
                     [- ln (6/10)],[- ln (7/10)],[- ln (8/10)],[- ln (9/10)],[- ln 1]],
        U_r := Some [[- ln 1],[- ln (9/10)],[- ln (8/10)],[- ln (7/10)],[- ln (6/10)],
                     [- ln (5/10)],[- ln (4/10)],[- ln (3/10)],[- ln (2/10)],[- ln (1/10)]],
        O_mat := Some [[- ln (1/10)],[- ln (2/10)],[- ln (3/10)],[- ln (4/10)],[- ln (5/10)],
                       [- ln (5/10)],[- ln (4/10)],[- ln (3/10)],[- ln (2/10)],[- ln (1/10)]],
        decision_scores := Some [ln (1/10), ln (2/10), ln (3/10), ln (4/10), ln (5/10),
                                 ln (5/10), ln (4/10), ln (3/10), ln (2/10), ln (1/10)],
        threshold := Some (ln (4/10)),
        labels := Some [0, 0, 0, 0, 1, 1, 0, 0, 0, 0]\<rparr>)"
proof -
  have sc: "map (\<lambda>s. s * -1) (raw_aggregate
          [[- ln (1/10)],[- ln (2/10)],[- ln (3/10)],[- ln (4/10)],[- ln (5/10)],
           [- ln (5/10)],[- ln (4/10)],[- ln (3/10)],[- ln (2/10)],[- ln (1/10::real)]]) =
        [ln (1/10), ln (2/10), ln (3/10), ln (4/10), ln (5/10),
         ln (5/10), ln (4/10), ln (3/10), ln (2/10), ln (1/10)]"
    by (simp add: raw_aggregate_def)
  have c: "contamination (ECOD (2/10) 5 ''cuda:0''
              \<lparr>U_l := a, U_r := b, O_mat := c, decision_scores := d\<rparr>) = 2/10" for a b c d
    by (simp add: ECOD_def)
  show ?thesis
    apply (simp only: fit_def Let_def extremity_scenario sc process_decision_scores_def c
        calibrate_scenario sum.case prod.case)
    apply (simp add: ecdf_scenario ecdf_neg_scenario neg_log_def ECOD_def)
    done
qed

text \<open>
  C3, the pipeline of \<open>fit\<close>: for every rectangular training matrix with at least one
  row (and a contamination below \<open>1/2\<close>) \<open>fit\<close> succeeds; the stored extremity matrix
  has the shape of the input; its entry for row \<open>i\<close> and feature \<open>f\<close> is the larger of
  the negative logarithms of the left tail (the empirical distribution function of
  column \<open>f\<close> of \<open>X\<close>, evaluated on that column) and of the right tail (the empirical
  distribution function of the negated column, evaluated on the negated column); the
  raw aggregate of row \<open>i\<close> is the sum of the entries of that row over all features.
  The stored training scores are the raw aggregates multiplied by \<open>-1\<close>.
\<close>

theorem fit_extremity_and_aggregate:
  assumes "X \<noteq> []" and "is_matrix X" and "contamination self < 1 / 2"
  shows "\<exists>m E. fit self X = Inr m \<and> O_mat m = Some E \<and> nrows E = nrows X \<and>
           (\<forall>i<nrows X.
              length (E ! i) = ncols X \<and>
              (\<forall>f<ncols X.
                 E ! i ! f =
                   max (- ln (EmpiricalCDF (column X f) (column X f) ! i))
                       (- ln (EmpiricalCDF (map uminus (column X f))
                                           (map uminus (column X f)) ! i))) \<and>
              raw_aggregate E ! i = (\<Sum>f<ncols X. E ! i ! f)) \<and>
           decision_scores m = Some (map (\<lambda>s. s * -1) (raw_aggregate E))"
proof -
  let ?E = "maximum (neg_log (ecdf_multiple X)) (neg_log (ecdf_multiple (neg X)))"
  obtain m where m: "fit self X = Inr m"
    using fit_succeeds [OF assms(1) assms(3)] by blast
  have "O_mat m = Some ?E"
    and "decision_scores m = Some (map (\<lambda>s. s * -1) (raw_aggregate ?E))"
    using fit_fields [OF m] by simp_all
  moreover have "nrows ?E = nrows X"
    by (rule nrows_extremity)
  moreover have "\<forall>i<nrows X.
              length (?E ! i) = ncols X \<and>
              (\<forall>f<ncols X.
                 ?E ! i ! f =
                   max (- ln (EmpiricalCDF (column X f) (column X f) ! i))
                       (- ln (EmpiricalCDF (map uminus (column X f))
                                           (map uminus (column X f)) ! i))) \<and>
              raw_aggregate ?E ! i = (\<Sum>f<ncols X. ?E ! i ! f)"
    using assms(2)
    by (simp add: length_row_extremity extremity_nth_columns raw_aggregate_extremity_nth)
  ultimately show ?thesis
    using m by blast
qed

text \<open>
  The theorem at three rows of two features, \<open>(0, 5)\<close>, \<open>(1, 3)\<close> and \<open>(2, 4)\<close>. The
  first row is extreme on the left of feature \<open>0\<close> and on the right of feature \<open>1\<close>:
  both entries are \<open>- ln (1/3)\<close>, the second of them through the negated column, and
  the raw aggregate is their sum.
\<close>

theorem fit_extremity_and_aggregate_witness:
  "[[0,5],[1,3],[2,4]] \<noteq> ([] :: matrix) \<and> is_matrix [[0,5],[1,3],[2,4]] \<and>
   contamination (ECOD (1/10) 5 ''cuda:0'') < 1 / 2 \<and>
   (\<exists>m E. fit (ECOD (1/10) 5 ''cuda:0'') [[0,5],[1,3],[2,4]] = Inr m \<and>
      O_mat m = Some E \<and> nrows E = 3 \<and>
      length (E ! 0) = 2 \<and> length (E ! 1) = 2 \<and> length (E ! 2) = 2 \<and>
      E ! 0 ! 0 = - ln (1/3) \<and> E ! 0 ! 1 = - ln (1/3) \<and>
      E ! 1 ! 0 = - ln (2/3) \<and> E ! 1 ! 1 = - ln (1/3) \<and>
      E ! 2 ! 0 = - ln (1/3) \<and> E ! 2 ! 1 = - ln (2/3) \<and>
      raw_aggregate E ! 0 = - ln (1/3) + - ln (1/3) \<and>
      raw_aggregate E ! 1 = - ln (2/3) + - ln (1/3) \<and>
      raw_aggregate E ! 2 = - ln (1/3) + - ln (2/3) \<and>
      decision_scores m = Some (map (\<lambda>s. s * -1) (raw_aggregate E)))"
proof -
  let ?X = "[[0,5],[1,3],[2,4]] :: matrix"
  let ?F = "ECOD (1/10) 5 ''cuda:0''"
  have h1: "?X \<noteq> []"
    by simp
  have h2: "is_matrix ?X"
    by (simp add: is_matrix_def ncols_def)
  have h3: "contamination ?F < 1 / 2"
    by (simp add: ECOD_def)
  have n: "nrows ?X = 3" and d: "ncols ?X = 2"
    by (simp_all add: nrows_def ncols_def)
  obtain m E where m: "fit ?F ?X = Inr m" and E: "O_mat m = Some E"
    and rows: "nrows E = nrows ?X"
    and entries: "\<forall>i<nrows ?X.
              length (E ! i) = ncols ?X \<and>
              (\<forall>f<ncols ?X.
                 E ! i ! f =
                   max (- ln (EmpiricalCDF (column ?X f) (column ?X f) ! i))
                       (- ln (EmpiricalCDF (map uminus (column ?X f))
                                           (map uminus (column ?X f)) ! i))) \<and>
              raw_aggregate E ! i = (\<Sum>f<ncols ?X. E ! i ! f)"
    and sc: "decision_scores m = Some (map (\<lambda>s. s * -1) (raw_aggregate E))"
    using fit_extremity_and_aggregate [OF h1 h2 h3] by blast
  have two: "{..<2::nat} = {0, 1}"
    by auto
  have e00: "E ! 0 ! 0 = - ln (1/3)" and e01: "E ! 0 ! 1 = - ln (1/3)"
    and e10: "E ! 1 ! 0 = - ln (2/3)" and e11: "E ! 1 ! 1 = - ln (1/3)"
    and e20: "E ! 2 ! 0 = - ln (1/3)" and e21: "E ! 2 ! 1 = - ln (2/3)"
    using entries by (simp_all add: n d column_def EmpiricalCDF_def)
  have len: "length (E ! 0) = 2" "length (E ! 1) = 2" "length (E ! 2) = 2"
    using entries by (simp_all add: n d)
  have "raw_aggregate E ! 0 = E ! 0 ! 0 + E ! 0 ! 1"
    and "raw_aggregate E ! 1 = E ! 1 ! 0 + E ! 1 ! 1"
    and "raw_aggregate E ! 2 = E ! 2 ! 0 + E ! 2 ! 1"
    using entries by (simp_all add: n d two)
  then have agg: "raw_aggregate E ! 0 = - ln (1/3) + - ln (1/3)"
    "raw_aggregate E ! 1 = - ln (2/3) + - ln (1/3)"
    "raw_aggregate E ! 2 = - ln (1/3) + - ln (2/3)"
    by (simp_all only: e00 e01 e10 e11 e20 e21)
  have "nrows E = 3"
    using rows n by simp
  then show ?thesis
    using h1 h2 h3 m E sc len e00 e01 e10 e11 e20 e21 agg by blast
qed

text \<open>
  C4, the result of \<open>decision_function\<close>: a call should return one score per query row.
  The body of the source ends after the optional concatenation and returns nothing: on
  the model fitted to the rows \<open>0, 1, 2\<close> the query with the two rows \<open>1\<close> and \<open>7\<close> yields
  \<open>None\<close>, not a list of two scores.
\<close>

theorem decision_function_returns_no_scores:
  "(case fit (ECOD (1/10) 5 ''cuda:0'') [[0],[1],[2]] of
      Inl e \<Rightarrow> False
    | Inr m \<Rightarrow> fst (decision_function m [[1],[7]]) = None)"
  by (simp add: fit_three_rows decision_function_None)

text \<open>
  C5, query against training: scoring the training matrix again should reproduce the
  cached training scores. After fitting the rows \<open>0, 1, 2\<close> the cached scores are
  \<open>ln (1/3), ln (2/3), ln (1/3)\<close>, and the query with the same matrix yields \<open>None\<close>.
\<close>

theorem decision_function_on_training_matrix:
  "(case fit (ECOD (1/10) 5 ''cuda:0'') [[0],[1],[2]] of
      Inl e \<Rightarrow> False
    | Inr m \<Rightarrow>
        decision_scores m = Some [ln (1/3), ln (2/3), ln (1/3)] \<and>
        fst (decision_function m [[0],[1],[2]]) = None)"
  by (simp add: fit_three_rows decision_function_None)

text \<open>
  C6, shape checks: \<open>fit\<close> should raise \<open>InvalidInputError\<close> on a matrix with fewer than
  two rows or without a column. The source checks nothing (the call of \<open>check_array\<close> is
  a comment): a single row and two rows without a column are both fitted.
\<close>

theorem fit_accepts_small_input:
  "nrows [[1]] < 2 \<and>
   fit (ECOD (1/10) 5 ''cuda:0'') [[1]] =
     Inr ((ECOD (1/10) 5 ''cuda:0'')
       \<lparr>U_l := Some [[- ln 1]], U_r := Some [[- ln 1]], O_mat := Some [[0]],
        decision_scores := Some [0], threshold := Some 0, labels := Some [0]\<rparr>) \<and>
   ncols [[],[]] < 1 \<and>
   fit (ECOD (1/10) 5 ''cuda:0'') [[],[]] =
     Inr ((ECOD (1/10) 5 ''cuda:0'')
       \<lparr>U_l := Some [[],[]], U_r := Some [[],[]], O_mat := Some [[],[]],
        decision_scores := Some [0, 0], threshold := Some 0, labels := Some [0, 0]\<rparr>)"
  using fit_single_row fit_no_column by (simp add: nrows_def ncols_def)

text \<open>
  C6 as amended: \<open>fit\<close> makes no shape check and succeeds on every matrix with at least
  one row when the contamination is below \<open>1/2\<close>; a single row, rows without a column
  and constant columns are fitted like any other input, and no \<open>InvalidInputError\<close> is
  raised.
\<close>

theorem fit_succeeds_without_shape_check:
  assumes "X \<noteq> []" and "contamination self < 1 / 2"
  shows "(\<exists>m. fit self X = Inr m) \<and> fit self X \<noteq> Inl InvalidInputError"
  using fit_succeeds [OF assms] fit_not_invalid [of self X] by auto

theorem fit_succeeds_without_shape_check_witness:
  "[[7],[7]] \<noteq> ([] :: matrix) \<and> contamination (ECOD (1/10) 5 ''cuda:0'') < 1 / 2 \<and>
   (\<exists>m. fit (ECOD (1/10) 5 ''cuda:0'') [[7],[7]] = Inr m) \<and>
   fit (ECOD (1/10) 5 ''cuda:0'') [[7],[7]] \<noteq> Inl InvalidInputError"
proof -
  have h1: "[[7],[7]] \<noteq> ([] :: matrix)"
    by simp
  have h2: "contamination (ECOD (1/10) 5 ''cuda:0'') < 1 / 2"
    by (simp add: ECOD_def)
  show ?thesis
    using h1 h2 fit_succeeds_without_shape_check [OF h1 h2] by blast
qed

text \<open>
  C7, row independence: the score of a query row should not depend on the other rows
  of the call, \<open>decision_function(\<pi>(Y))[i] = decision_function(Y)[\<pi>\<^sup>-\<^sup>1(i)]\<close>. Neither
  side exists: on the model fitted to the rows \<open>0, 1, 2\<close> the query \<open>1, 7\<close> and its
  permutation \<open>7, 1\<close> both yield \<open>None\<close>, which has no entry \<open>i\<close>.
\<close>

theorem decision_function_permuted_query:
  "(case fit (ECOD (1/10) 5 ''cuda:0'') [[0],[1],[2]] of
      Inl e \<Rightarrow> False
    | Inr m \<Rightarrow>
        fst (decision_function m [[1],[7]]) = None \<and>
        fst (decision_function m [[7],[1]]) = None)"
  by (simp add: fit_three_rows decision_function_None)

text \<open>
  C9, retained state: the fitted model should hold the per-feature reference
  distributions of the training matrix. \<open>fit\<close> stores tail values of the training rows
  only and no training value: the training sets \<open>0, 1\<close> and \<open>0, 5\<close> have different
  reference distributions (at the query value \<open>2\<close> the first gives \<open>1\<close>, the second
  \<open>1/2\<close>) and leave the same fitted model, without an attribute \<open>X_train\<close>.
\<close>

theorem fitted_model_forgets_reference:
  "fit (ECOD (1/10) 5 ''cuda:0'') [[0],[1]] =
     Inr ((ECOD (1/10) 5 ''cuda:0'')
       \<lparr>U_l := Some [[- ln (1/2)],[- ln 1]],
        U_r := Some [[- ln 1],[- ln (1/2)]],
        O_mat := Some [[- ln (1/2)],[- ln (1/2)]],
        decision_scores := Some [ln (1/2), ln (1/2)],
        threshold := Some (ln (1/2)),
        labels := Some [0, 0]\<rparr>) \<and>
   fit (ECOD (1/10) 5 ''cuda:0'') [[0],[5]] = fit (ECOD (1/10) 5 ''cuda:0'') [[0],[1]] \<and>
   X_train (ECOD (1/10) 5 ''cuda:0'') = None \<and>
   EmpiricalCDF (column [[0],[1]] 0) [2] = [1] \<and>
   EmpiricalCDF (column [[0],[5]] 0) [2] = [1/2]"
  using fit_two_rows by (simp add: EmpiricalCDF_def column_def ECOD_def)

text \<open>
  C9 as amended: after \<open>fit\<close> the model holds, for the training rows, the negative
  logarithms of the left and right tail values, the extremity matrix, the training
  scores, a threshold and the labels; \<open>X_train\<close> is as it was before the call (absent on
  a new detector), so no training value is kept. \<open>decision_function\<close> leaves every
  attribute of the model unchanged, for every query matrix.
\<close>

theorem fitted_state_and_query_frame:
  assumes "fit self X = Inr m"
  shows "U_l m = Some (neg_log (ecdf_multiple X)) \<and>
         U_r m = Some (neg_log (ecdf_multiple (neg X))) \<and>
         O_mat m = Some (maximum (neg_log (ecdf_multiple X)) (neg_log (ecdf_multiple (neg X)))) \<and>
         decision_scores m = Some (map (\<lambda>s. s * -1) (raw_aggregate
           (maximum (neg_log (ecdf_multiple X)) (neg_log (ecdf_multiple (neg X)))))) \<and>
         threshold m \<noteq> None \<and> labels m \<noteq> None \<and>
         X_train m = X_train self \<and>
         snd (decision_function m Y) = m"
  using fit_fields [OF assms] decision_function_frame [of m Y] by simp

theorem fitted_state_and_query_frame_witness:
  "fit (ECOD (1/10) 5 ''cuda:0'') [[0],[1],[2]] =
     Inr ((ECOD (1/10) 5 ''cuda:0'')
       \<lparr>U_l := Some [[- ln (1/3)],[- ln (2/3)],[- ln 1]],
        U_r := Some [[- ln 1],[- ln (2/3)],[- ln (1/3)]],
        O_mat := Some [[- ln (1/3)],[- ln (2/3)],[- ln (1/3)]],
        decision_scores := Some [ln (1/3), ln (2/3), ln (1/3)],
        threshold := Some (ln (2/3)),
        labels := Some [0, 0, 0]\<rparr>) \<and>
   X_train ((ECOD (1/10) 5 ''cuda:0'')
       \<lparr>U_l := Some [[- ln (1/3)],[- ln (2/3)],[- ln 1]],
        U_r := Some [[- ln 1],[- ln (2/3)],[- ln (1/3)]],
        O_mat := Some [[- ln (1/3)],[- ln (2/3)],[- ln (1/3)]],
        decision_scores := Some [ln (1/3), ln (2/3), ln (1/3)],
        threshold := Some (ln (2/3)),
        labels := Some [0, 0, 0]\<rparr>) = X_train (ECOD (1/10) 5 ''cuda:0'') \<and>
   snd (decision_function ((ECOD (1/10) 5 ''cuda:0'')
       \<lparr>U_l := Some [[- ln (1/3)],[- ln (2/3)],[- ln 1]],
        U_r := Some [[- ln 1],[- ln (2/3)],[- ln (1/3)]],
        O_mat := Some [[- ln (1/3)],[- ln (2/3)],[- ln (1/3)]],
        decision_scores := Some [ln (1/3), ln (2/3), ln (1/3)],
        threshold := Some (ln (2/3)),
        labels := Some [0, 0, 0]\<rparr>) [[4]]) =
     (ECOD (1/10) 5 ''cuda:0'')
       \<lparr>U_l := Some [[- ln (1/3)],[- ln (2/3)],[- ln 1]],
        U_r := Some [[- ln 1],[- ln (2/3)],[- ln (1/3)]],
        O_mat := Some [[- ln (1/3)],[- ln (2/3)],[- ln (1/3)]],
        decision_scores := Some [ln (1/3), ln (2/3), ln (1/3)],
        threshold := Some (ln (2/3)),
        labels := Some [0, 0, 0]\<rparr>"
proof -
  have h: "fit (ECOD (1/10) 5 ''cuda:0'') [[0],[1],[2]] =
     Inr ((ECOD (1/10) 5 ''cuda:0'')
       \<lparr>U_l := Some [[- ln (1/3)],[- ln (2/3)],[- ln 1]],
        U_r := Some [[- ln 1],[- ln (2/3)],[- ln (1/3)]],
        O_mat := Some [[- ln (1/3)],[- ln (2/3)],[- ln (1/3)]],
        decision_scores := Some [ln (1/3), ln (2/3), ln (1/3)],
        threshold := Some (ln (2/3)),
        labels := Some [0, 0, 0]\<rparr>)"
    by (rule fit_three_rows)
  show ?thesis
    using h fitted_state_and_query_frame [OF h, of "[[4]]"] by blast
qed

text \<open>
  C10, sign of the training scores: every tail value of a training row lies in
  \<open>(0, 1]\<close>, so every entry of the extremity matrix is nonnegative, every raw aggregate
  is nonnegative, and every stored training score, the aggregate multiplied by \<open>-1\<close>,
  is at most \<open>0\<close>.
\<close>

theorem training_scores_nonpositive:
  assumes "X \<noteq> []" and "contamination self < 1 / 2"
  shows "\<exists>m sc. fit self X = Inr m \<and> decision_scores m = Some sc \<and>
           length sc = nrows X \<and> (\<forall>i<nrows X. sc ! i \<le> 0)"
proof -
  let ?E = "maximum (neg_log (ecdf_multiple X)) (neg_log (ecdf_multiple (neg X)))"
  let ?sc = "map (\<lambda>s. s * -1) (raw_aggregate ?E)"
  obtain m where m: "fit self X = Inr m"
    using fit_succeeds [OF assms] by blast
  have sc: "decision_scores m = Some ?sc"
    using fit_fields [OF m] by simp
  have len: "length ?sc = nrows X"
    by (rule length_scores)
  have "\<forall>i<nrows X. ?sc ! i \<le> 0"
  proof (intro allI impI)
    fix i assume i: "i < nrows X"
    then have "i < length (raw_aggregate ?E)"
      by (simp add: length_raw_aggregate nrows_extremity)
    then have "?sc ! i = raw_aggregate ?E ! i * -1"
      by simp
    then show "?sc ! i \<le> 0"
      using raw_aggregate_extremity_nonneg [OF i] by simp
  qed
  then show ?thesis
    using m sc len by blast
qed

theorem training_scores_nonpositive_witness:
  "[[0],[1],[2]] \<noteq> ([] :: matrix) \<and> contamination (ECOD (1/10) 5 ''cuda:0'') < 1 / 2 \<and>
   (\<exists>m sc. fit (ECOD (1/10) 5 ''cuda:0'') [[0],[1],[2]] = Inr m \<and>
      decision_scores m = Some sc \<and> length sc = nrows [[0],[1],[2::real]] \<and>
      (\<forall>i<nrows [[0],[1],[2::real]]. sc ! i \<le> 0))"
proof -
  have h1: "[[0],[1],[2]] \<noteq> ([] :: matrix)"
    by simp
  have h2: "contamination (ECOD (1/10) 5 ''cuda:0'') < 1 / 2"
    by (simp add: ECOD_def)
  show ?thesis
    using h1 h2 training_scores_nonpositive [OF h1 h2] by blast
qed

end
